theory Spec2Isabelle
  imports Main "HOL-Library.Word"
begin

unbundle bit_operations_syntax

section \<open>Memory bus (memory.c)\<close>

text \<open>
  The processor registers of \<^verbatim>\<open>struct cpu_state\<close> (fake6502.h), the globals of
  memory.c and the global \<^verbatim>\<open>clockgoal6502\<close> of fake6502.c form one machine state.
  Note that \<^verbatim>\<open>ea\<close> is declared \<^verbatim>\<open>uint8_t\<close> in fake6502.h.
  \<^verbatim>\<open>RAM\<close> and \<^verbatim>\<open>ROM\<close> are byte arrays indexed by a C \<^verbatim>\<open>int\<close>; the two decode
  tables are \<^verbatim>\<open>uint8_t[0x100]\<close>. \<^verbatim>\<open>num_ram_banks\<close> is a global of glue.h, which
  is not part of the sources at hand, and is carried in the state.
  The devices behind the I/O page (VIA, mouse, audio, emulator control, video) are kept
  in the component \<open>devices\<close>.
\<close>

record 'd machine =
  CPU_pc :: "16 word"
  CPU_sp :: "8 word"
  CPU_a :: "8 word"
  CPU_x :: "8 word"
  CPU_y :: "8 word"
  CPU_status :: "8 word"
  CPU_wai :: "8 word"
  CPU_ea :: "8 word"
  CPU_perf_instructions :: "32 word"
  CPU_perf_clock_ticks :: "32 word"
  clockgoal6502 :: "32 word"
  RAM :: "nat \<Rightarrow> 8 word"
  ROM :: "nat \<Rightarrow> 8 word"
  ram_bank :: "8 word"
  rom_bank :: "8 word"
  num_ram_banks :: nat
  memory_map_hi :: "nat list"
  memory_map_io :: "nat list"
  devices :: 'd

definition MEMMAP_NULL :: nat where [simp]: "MEMMAP_NULL = 0"
definition MEMMAP_DIRECT :: nat where [simp]: "MEMMAP_DIRECT = 1"
definition MEMMAP_IO :: nat where [simp]: "MEMMAP_IO = 2"
definition MEMMAP_IO_SOUND :: nat where [simp]: "MEMMAP_IO_SOUND = 2"
definition MEMMAP_IO_VIDEO :: nat where [simp]: "MEMMAP_IO_VIDEO = 3"
definition MEMMAP_IO_LCD :: nat where [simp]: "MEMMAP_IO_LCD = 4"
definition MEMMAP_IO_VIA1 :: nat where [simp]: "MEMMAP_IO_VIA1 = 5"
definition MEMMAP_IO_VIA2 :: nat where [simp]: "MEMMAP_IO_VIA2 = 6"
definition MEMMAP_IO_RTC :: nat where [simp]: "MEMMAP_IO_RTC = 7"
definition MEMMAP_IO_MOUSE :: nat where [simp]: "MEMMAP_IO_MOUSE = 8"
definition MEMMAP_IO_EMU :: nat where [simp]: "MEMMAP_IO_EMU = 9"
definition MEMMAP_RAMBANK :: nat where [simp]: "MEMMAP_RAMBANK = 10"
definition MEMMAP_ROMBANK :: nat where [simp]: "MEMMAP_ROMBANK = 11"

record memmap_table_entry =
  entry_start :: nat
  final_entry :: nat
  memory_type :: nat

definition memmap_table_hi :: "memmap_table_entry list" where
  "memmap_table_hi =
    [\<lparr>entry_start = 0x00, final_entry = 0x9f - 1, memory_type = MEMMAP_DIRECT\<rparr>,
     \<lparr>entry_start = 0x9f, final_entry = 0xa0 - 1, memory_type = MEMMAP_IO\<rparr>,
     \<lparr>entry_start = 0xa0, final_entry = 0xc0 - 1, memory_type = MEMMAP_RAMBANK\<rparr>,
     \<lparr>entry_start = 0xc0, final_entry = 0xff, memory_type = MEMMAP_ROMBANK\<rparr>]"

definition memmap_table_io :: "memmap_table_entry list" where
  "memmap_table_io =
    [\<lparr>entry_start = 0x00, final_entry = 0x20 - 1, memory_type = MEMMAP_IO_SOUND\<rparr>,
     \<lparr>entry_start = 0x20, final_entry = 0x40 - 1, memory_type = MEMMAP_IO_VIDEO\<rparr>,
     \<lparr>entry_start = 0x40, final_entry = 0x60 - 1, memory_type = MEMMAP_IO_LCD\<rparr>,
     \<lparr>entry_start = 0x60, final_entry = 0x70 - 1, memory_type = MEMMAP_IO_VIA1\<rparr>,
     \<lparr>entry_start = 0x70, final_entry = 0x80 - 1, memory_type = MEMMAP_IO_VIA2\<rparr>,
     \<lparr>entry_start = 0x80, final_entry = 0xa0 - 1, memory_type = MEMMAP_IO_RTC\<rparr>,
     \<lparr>entry_start = 0xa0, final_entry = 0xb0 - 1, memory_type = MEMMAP_IO_MOUSE\<rparr>,
     \<lparr>entry_start = 0xb0, final_entry = 0xc0 - 1, memory_type = MEMMAP_IO_EMU\<rparr>,
     \<lparr>entry_start = 0xc0, final_entry = 0xe0 - 1, memory_type = MEMMAP_NULL\<rparr>,
     \<lparr>entry_start = 0xe0, final_entry = 0xff, memory_type = MEMMAP_IO_SOUND\<rparr>]"

text \<open>
  The inner \<^verbatim>\<open>for\<close> loop of \<^verbatim>\<open>build_memory_map\<close>: every slot from \<^verbatim>\<open>entry_start\<close> to
  \<^verbatim>\<open>final_entry\<close> (inclusive) receives the entry's memory type.
\<close>

definition fill_entry :: "memmap_table_entry \<Rightarrow> nat list \<Rightarrow> nat list" where
  "fill_entry e map0 =
     fold (\<lambda>i m. m[i := memory_type e]) [entry_start e ..< Suc (final_entry e)] map0"

text \<open>
  \<^verbatim>\<open>build_memory_map\<close>: entries are applied in order until one whose \<^verbatim>\<open>final_entry\<close>
  is \<^verbatim>\<open>0xff\<close>, which is applied last. Both tables of memory.c end with such an entry;
  the C loop would run past a table without one, a case the first equation closes.
\<close>

fun build_memory_map :: "memmap_table_entry list \<Rightarrow> nat list \<Rightarrow> nat list" where
  "build_memory_map [] map0 = map0"
| "build_memory_map (e # es) map0 =
     (if final_entry e < 0xff then build_memory_map es (fill_entry e map0)
      else fill_entry e map0)"

text \<open>
  \<^verbatim>\<open>memory_init\<close>: \<^verbatim>\<open>calloc\<close> gives zeroed RAM; the two decode tables are built.
\<close>

definition memory_init :: "'d machine \<Rightarrow> 'd machine" where
  "memory_init m =
     m\<lparr>RAM := (\<lambda>_. 0),
       memory_map_hi := build_memory_map memmap_table_hi (memory_map_hi m),
       memory_map_io := build_memory_map memmap_table_io (memory_map_io m)\<rparr>"


text \<open>
  The handlers behind the I/O page (\<^verbatim>\<open>real_io_read\<close> and \<^verbatim>\<open>io_write\<close> dispatch to the
  VIA, mouse, audio and emulator-control devices, whose code is not part of the sources
  at hand) are parameters of the bus.
\<close>

record 'd io_hooks =
  real_io_read :: "16 word \<Rightarrow> 'd machine \<Rightarrow> 8 word \<times> 'd machine"
  io_write :: "16 word \<Rightarrow> 8 word \<Rightarrow> 'd machine \<Rightarrow> 'd machine"

text \<open>
  \<^verbatim>\<open>ram_bank % num_ram_banks\<close>; the C expression is undefined for
  \<^verbatim>\<open>num_ram_banks = 0\<close>, where HOL's \<open>mod\<close> returns its first argument.
\<close>

definition effective_ram_bank :: "'d machine \<Rightarrow> nat" where
  "effective_ram_bank m = unat (ram_bank m) mod num_ram_banks m"

definition real_ram_read :: "16 word \<Rightarrow> 'd machine \<Rightarrow> 8 word" where
  "real_ram_read address m =
     RAM m (0xa000 + push_bit 13 (effective_ram_bank m) + unat address - 0xa000)"

text \<open>The bus calls \<^verbatim>\<open>real_rom_read\<close> for addresses from \<^verbatim>\<open>0xc000\<close> on.\<close>

definition real_rom_read :: "16 word \<Rightarrow> 'd machine \<Rightarrow> 8 word" where
  "real_rom_read address m =
     ROM m (push_bit 14 (unat (rom_bank m)) + unat address - 0xc000)"

definition real_read6502 :: "'d io_hooks \<Rightarrow> 16 word \<Rightarrow> 'd machine \<Rightarrow> 8 word \<times> 'd machine" where
  "real_read6502 h address m =
     (let t = memory_map_hi m ! unat (drop_bit 8 address) in
      if t = MEMMAP_NULL then (0, m)
      else if t = MEMMAP_DIRECT then (RAM m (unat address), m)
      else if t = MEMMAP_IO then real_io_read h address m
      else if t = MEMMAP_RAMBANK then (real_ram_read address m, m)
      else if t = MEMMAP_ROMBANK then (real_rom_read address m, m)
      else (0, m))"

definition read6502 :: "'d io_hooks \<Rightarrow> 16 word \<Rightarrow> 'd machine \<Rightarrow> 8 word \<times> 'd machine" where
  "read6502 h address m = real_read6502 h address m"

definition ram_write :: "16 word \<Rightarrow> 8 word \<Rightarrow> 'd machine \<Rightarrow> 'd machine" where
  "ram_write address v m =
     m\<lparr>RAM := (RAM m)(0xa000 + push_bit 13 (effective_ram_bank m) + unat address - 0xa000 := v)\<rparr>"

definition write6502 :: "'d io_hooks \<Rightarrow> 16 word \<Rightarrow> 8 word \<Rightarrow> 'd machine \<Rightarrow> 'd machine" where
  "write6502 h address v m =
     (let t = memory_map_hi m ! unat (drop_bit 8 address) in
      if t = MEMMAP_NULL then m
      else if t = MEMMAP_DIRECT then m\<lparr>RAM := (RAM m)(unat address := v)\<rparr>
      else if t = MEMMAP_IO then io_write h address v m
      else if t = MEMMAP_RAMBANK then ram_write address v m
      else if t = MEMMAP_ROMBANK then m
      else m)"

section \<open>CPU core (cpu/fake6502.c, cpu/support.h, cpu/modes.h)\<close>

definition FLAG_CARRY :: "8 word" where [simp]: "FLAG_CARRY = 0x01"
definition FLAG_ZERO :: "8 word" where [simp]: "FLAG_ZERO = 0x02"
definition FLAG_INTERRUPT :: "8 word" where [simp]: "FLAG_INTERRUPT = 0x04"
definition FLAG_DECIMAL :: "8 word" where [simp]: "FLAG_DECIMAL = 0x08"
definition FLAG_BREAK :: "8 word" where [simp]: "FLAG_BREAK = 0x10"
definition FLAG_CONSTANT :: "8 word" where [simp]: "FLAG_CONSTANT = 0x20"
definition FLAG_OVERFLOW :: "8 word" where [simp]: "FLAG_OVERFLOW = 0x40"
definition FLAG_SIGN :: "8 word" where [simp]: "FLAG_SIGN = 0x80"

definition BASE_STACK :: "16 word" where [simp]: "BASE_STACK = 0x100"

subsection \<open>Flag macros of support.h\<close>

definition setflags :: "8 word \<Rightarrow> 'd machine \<Rightarrow> 'd machine" where
  "setflags BITS m = m\<lparr>CPU_status := CPU_status m OR BITS\<rparr>"

definition clearflags :: "8 word \<Rightarrow> 'd machine \<Rightarrow> 'd machine" where
  "clearflags BITS m = m\<lparr>CPU_status := CPU_status m AND NOT BITS\<rparr>"

definition setinterrupt :: "'d machine \<Rightarrow> 'd machine" where
  "setinterrupt m = m\<lparr>CPU_status := CPU_status m OR FLAG_INTERRUPT\<rparr>"

definition cleardecimal :: "'d machine \<Rightarrow> 'd machine" where
  "cleardecimal m = m\<lparr>CPU_status := CPU_status m AND NOT FLAG_DECIMAL\<rparr>"

text \<open>
  The \<^verbatim>\<open>select_\<close> macros work on C \<^verbatim>\<open>int\<close> values after integer promotion. All
  their operands in the functions below are unsigned and below \<open>2 ^ 16\<close>, and the
  macros only compare, shift right and combine bitwise, so a 16-bit word carries
  the promoted value exactly.

  \<^verbatim>\<open>select_overflow(R, A, M)\<close> expands to \<^verbatim>\<open>((((R)^(A) & (R)^(M)) & 0x80) >> 1)\<close>. In C
  \<^verbatim>\<open>&\<close> binds tighter than \<^verbatim>\<open>^\<close>, so the inner expression is
  \<^verbatim>\<open>R ^ (A & R) ^ M\<close>.
\<close>

definition select_carry :: "16 word \<Rightarrow> 16 word" where
  "select_carry A = drop_bit 8 A AND 1"

definition select_zero :: "16 word \<Rightarrow> 16 word" where
  "select_zero A = push_bit 1 (if A = 0 then 1 else 0)"

definition select_overflow :: "16 word \<Rightarrow> 16 word \<Rightarrow> 16 word \<Rightarrow> 16 word" where
  "select_overflow R A M = drop_bit 1 ((R XOR (A AND R) XOR M) AND 0x80)"

definition select_sign :: "16 word \<Rightarrow> 16 word" where
  "select_sign A = A AND 0x80"

subsection \<open>Stack and fetch helpers of support.h\<close>

text \<open>
  \<^verbatim>\<open>write6502(BASE_STACK + CPU.sp--, pushval)\<close>: the argument is the old stack pointer,
  and the decrement (modulo 256, \<^verbatim>\<open>sp\<close> is \<^verbatim>\<open>uint8_t\<close>) is complete when the call is made.
\<close>

definition push8 :: "'d io_hooks \<Rightarrow> 8 word \<Rightarrow> 'd machine \<Rightarrow> 'd machine" where
  "push8 h pushval m =
     write6502 h (BASE_STACK + ucast (CPU_sp m)) pushval (m\<lparr>CPU_sp := CPU_sp m - 1\<rparr>)"

definition push16 :: "'d io_hooks \<Rightarrow> 16 word \<Rightarrow> 'd machine \<Rightarrow> 'd machine" where
  "push16 h pushval m =
     (let m1 = write6502 h (BASE_STACK + ucast (CPU_sp m)) (ucast (drop_bit 8 pushval AND 0xFF)) m;
          m2 = write6502 h (BASE_STACK + (ucast (CPU_sp m1 - 1) AND 0xFF)) (ucast (pushval AND 0xFF)) m1
      in m2\<lparr>CPU_sp := CPU_sp m2 - 2\<rparr>)"

text \<open>\<^verbatim>\<open>read6502(BASE_STACK + ++CPU.sp)\<close>: the incremented 8-bit stack pointer is used.\<close>

definition pull8 :: "'d io_hooks \<Rightarrow> 'd machine \<Rightarrow> 8 word \<times> 'd machine" where
  "pull8 h m =
     (let m1 = m\<lparr>CPU_sp := CPU_sp m + 1\<rparr>
      in read6502 h (BASE_STACK + ucast (CPU_sp m1)) m1)"

text \<open>
  C leaves the order of the two reads joined by \<^verbatim>\<open>|\<close> unspecified; the model reads the
  low byte first. The order only matters for reads from the I/O page.
\<close>

definition pull16 :: "'d io_hooks \<Rightarrow> 'd machine \<Rightarrow> 16 word \<times> 'd machine" where
  "pull16 h m =
     (let (lo, m1) = read6502 h (BASE_STACK + (ucast (CPU_sp m) + 1 AND 0xFF)) m;
          (hi, m2) = read6502 h (BASE_STACK + (ucast (CPU_sp m1) + 2 AND 0xFF)) m1;
          temp16 = ucast lo OR push_bit 8 (ucast hi)
      in (temp16, m2\<lparr>CPU_sp := CPU_sp m2 + 2\<rparr>))"

definition read8 :: "'d io_hooks \<Rightarrow> 'd machine \<Rightarrow> 8 word \<times> 'd machine" where
  "read8 h m = read6502 h (CPU_pc m) (m\<lparr>CPU_pc := CPU_pc m + 1\<rparr>)"

subsection \<open>ADC\<close>

text \<open>
  \<^verbatim>\<open>adcx\<close>, the binary ADC. The flags are selected from the 16-bit sum \<^verbatim>\<open>a\<close>:
  \<^verbatim>\<open>select_zero(a)\<close> and \<^verbatim>\<open>select_carry(a)\<close> see all 16 bits, \<^verbatim>\<open>select_sign\<close> the sum
  cast to \<^verbatim>\<open>uint8_t\<close>; \<^verbatim>\<open>CPU.a\<close> still holds the old accumulator there.
\<close>

definition adcx :: "'d io_hooks \<Rightarrow> 16 word \<Rightarrow> 'd machine \<Rightarrow> 'd machine" where
  "adcx h addr m =
     (let (v, m1) = read6502 h addr m;
          a = (ucast (CPU_a m1) :: 16 word) + ucast v + ucast (CPU_status m1 AND FLAG_CARRY);
          m2 = clearflags (FLAG_ZERO OR FLAG_CARRY OR FLAG_SIGN OR FLAG_OVERFLOW) m1;
          m3 = m2\<lparr>CPU_status := CPU_status m2 OR
                 ucast (select_zero a OR select_carry a OR select_sign (ucast (ucast a :: 8 word))
                        OR select_overflow a (ucast (CPU_a m2)) (ucast v))\<rparr>
      in m3\<lparr>CPU_a := ucast a\<rparr>)"

text \<open>
  \<^verbatim>\<open>adcd\<close>, the decimal ADC. The statement that would set the flags from the sum is
  commented out in the source, so the four flags stay cleared.
\<close>

definition adcd :: "'d io_hooks \<Rightarrow> 16 word \<Rightarrow> 'd machine \<Rightarrow> 'd machine" where
  "adcd h addr m =
     (let (v, m1) = read6502 h addr m;
          a0 = (ucast (CPU_a m1) :: 16 word) + ucast (v AND 0x0f) + ucast (CPU_status m1 AND FLAG_CARRY);
          a1 = (if (a0 AND 0xf) > 9 then a0 + 6 else a0);
          a2 = a1 + ucast (v AND 0xf0);
          a3 = (if (a2 AND 0xf0) > 0x90 then a2 + 0x60 else a2);
          m2 = clearflags (FLAG_ZERO OR FLAG_CARRY OR FLAG_SIGN OR FLAG_OVERFLOW) m1
      in m2\<lparr>CPU_a := ucast a3\<rparr>)"


subsection \<open>BRK, RTI and the single-step entry point\<close>

text \<open>C leaves the order of the two vector reads unspecified; the low byte is read first.\<close>

definition brk :: "'d io_hooks \<Rightarrow> 16 word \<Rightarrow> 'd machine \<Rightarrow> 'd machine" where
  "brk h addr m =
     (let m1 = push16 h (CPU_pc m + 1) m;
          m2 = push8 h (CPU_status m1 OR FLAG_BREAK) m1;
          m3 = setinterrupt m2;
          m4 = cleardecimal m3;
          (lo, m5) = read6502 h 0xFFFE m4;
          (hi, m6) = read6502 h 0xFFFF m5
      in m6\<lparr>CPU_pc := ucast lo OR push_bit 8 (ucast hi)\<rparr>)"

definition rti :: "'d io_hooks \<Rightarrow> 16 word \<Rightarrow> 'd machine \<Rightarrow> 'd machine" where
  "rti h addr m =
     (let (p, m1) = pull8 h m;
          m2 = m1\<lparr>CPU_status := p\<rparr>;
          (t, m3) = pull16 h m2
      in m3\<lparr>CPU_pc := t\<rparr>)"

text \<open>\<^verbatim>\<open>IMPL_CPU_IMP(brk, 00, 7)\<close> and \<^verbatim>\<open>IMPL_CPU_IMP(rti, 40, 6)\<close>.\<close>

definition brk_00 :: "'d io_hooks \<Rightarrow> 'd machine \<Rightarrow> 'd machine" where
  "brk_00 h m =
     (let m1 = brk h 0 m in m1\<lparr>CPU_perf_clock_ticks := CPU_perf_clock_ticks m1 + 7\<rparr>)"

definition rti_40 :: "'d io_hooks \<Rightarrow> 'd machine \<Rightarrow> 'd machine" where
  "rti_40 h m =
     (let m1 = rti h 0 m in m1\<lparr>CPU_perf_clock_ticks := CPU_perf_clock_ticks m1 + 6\<rparr>)"

text \<open>
  \<^verbatim>\<open>step6502\<close>. The dispatch table \<^verbatim>\<open>optable\<close> is declared in tables.h, which is not
  part of the sources at hand (and CLD and SED rewrite it at run time), so the table
  in force is a parameter: \<open>optable opcode\<close> is the handler called for \<open>opcode\<close>.
\<close>

definition step6502 ::
  "(8 word \<Rightarrow> 'd machine \<Rightarrow> 'd machine) \<Rightarrow> 'd io_hooks \<Rightarrow> 'd machine \<Rightarrow> 'd machine" where
  "step6502 optable h m =
     (if CPU_wai m \<noteq> 0 then
        (let m1 = m\<lparr>CPU_perf_clock_ticks := CPU_perf_clock_ticks m + 1\<rparr>
         in m1\<lparr>clockgoal6502 := CPU_perf_clock_ticks m1\<rparr>)
      else
        (let (opcode, m1) = read8 h m;
             m2 = optable opcode m1;
             m3 = m2\<lparr>clockgoal6502 := CPU_perf_clock_ticks m2\<rparr>
         in m3\<lparr>CPU_perf_instructions := CPU_perf_instructions m3 + 1\<rparr>))"

subsection \<open>Bit branches BBRx and BBSx\<close>

definition tick_penalty :: "16 word \<Rightarrow> 16 word \<Rightarrow> 8 word" where
  "tick_penalty addr1 addr2 = (if (addr1 XOR addr2) AND 0xff00 \<noteq> 0 then 1 else 0)"

text \<open>
  \<^verbatim>\<open>zprel\<close>. In \<^verbatim>\<open>CPU.ea = CPU.pc + (int8_t)read8()\<close> C does not fix whether
  \<^verbatim>\<open>CPU.pc\<close> is read before or after the call of \<^verbatim>\<open>read8\<close>, which increments it;
  \<open>pc_first\<close> selects the order. The sum is stored into \<^verbatim>\<open>CPU.ea\<close>, a \<^verbatim>\<open>uint8_t\<close>,
  so only its low byte is kept.
\<close>

definition zprel :: "bool \<Rightarrow> 'd io_hooks \<Rightarrow> 8 word \<Rightarrow> 'd machine \<Rightarrow> 16 word \<times> 'd machine" where
  "zprel pc_first h penalty m =
     (let (b, m1) = read8 h m;
          v = (ucast b :: 16 word);
          (off, m2) = read8 h m1;
          base = (if pc_first then CPU_pc m1 else CPU_pc m2);
          m3 = m2\<lparr>CPU_ea := ucast (base + scast off)\<rparr>;
          m4 = m3\<lparr>CPU_perf_clock_ticks := CPU_perf_clock_ticks m3 +
                 ucast (penalty AND tick_penalty (CPU_pc m3) (ucast (CPU_ea m3)))\<rparr>
      in (v, m4))"

text \<open>
  \<^verbatim>\<open>bbr0\<close> .. \<^verbatim>\<open>bbr7\<close> and \<^verbatim>\<open>bbs0\<close> .. \<^verbatim>\<open>bbs7\<close> differ only in the mask they test;
  \<open>bbr\<close> and \<open>bbs\<close> carry the common body.
\<close>

definition bbr :: "8 word \<Rightarrow> 'd io_hooks \<Rightarrow> 16 word \<Rightarrow> 'd machine \<Rightarrow> 'd machine" where
  "bbr msk h addr m =
     (let (v, m1) = read6502 h addr m
      in if NOT v AND msk \<noteq> 0 then m1\<lparr>CPU_pc := ucast (CPU_ea m1)\<rparr> else m1)"

definition bbs :: "8 word \<Rightarrow> 'd io_hooks \<Rightarrow> 16 word \<Rightarrow> 'd machine \<Rightarrow> 'd machine" where
  "bbs msk h addr m =
     (let (v, m1) = read6502 h addr m
      in if v AND msk \<noteq> 0 then m1\<lparr>CPU_pc := ucast (CPU_ea m1)\<rparr> else m1)"

definition bbr0 :: "'d io_hooks \<Rightarrow> 16 word \<Rightarrow> 'd machine \<Rightarrow> 'd machine" where "bbr0 = bbr 0x01"
definition bbr1 :: "'d io_hooks \<Rightarrow> 16 word \<Rightarrow> 'd machine \<Rightarrow> 'd machine" where "bbr1 = bbr 0x02"
definition bbr2 :: "'d io_hooks \<Rightarrow> 16 word \<Rightarrow> 'd machine \<Rightarrow> 'd machine" where "bbr2 = bbr 0x04"
definition bbr3 :: "'d io_hooks \<Rightarrow> 16 word \<Rightarrow> 'd machine \<Rightarrow> 'd machine" where "bbr3 = bbr 0x08"
definition bbr4 :: "'d io_hooks \<Rightarrow> 16 word \<Rightarrow> 'd machine \<Rightarrow> 'd machine" where "bbr4 = bbr 0x10"
definition bbr5 :: "'d io_hooks \<Rightarrow> 16 word \<Rightarrow> 'd machine \<Rightarrow> 'd machine" where "bbr5 = bbr 0x20"
definition bbr6 :: "'d io_hooks \<Rightarrow> 16 word \<Rightarrow> 'd machine \<Rightarrow> 'd machine" where "bbr6 = bbr 0x40"
definition bbr7 :: "'d io_hooks \<Rightarrow> 16 word \<Rightarrow> 'd machine \<Rightarrow> 'd machine" where "bbr7 = bbr 0x80"
definition bbs0 :: "'d io_hooks \<Rightarrow> 16 word \<Rightarrow> 'd machine \<Rightarrow> 'd machine" where "bbs0 = bbs 0x01"
definition bbs1 :: "'d io_hooks \<Rightarrow> 16 word \<Rightarrow> 'd machine \<Rightarrow> 'd machine" where "bbs1 = bbs 0x02"
definition bbs2 :: "'d io_hooks \<Rightarrow> 16 word \<Rightarrow> 'd machine \<Rightarrow> 'd machine" where "bbs2 = bbs 0x04"
definition bbs3 :: "'d io_hooks \<Rightarrow> 16 word \<Rightarrow> 'd machine \<Rightarrow> 'd machine" where "bbs3 = bbs 0x08"
definition bbs4 :: "'d io_hooks \<Rightarrow> 16 word \<Rightarrow> 'd machine \<Rightarrow> 'd machine" where "bbs4 = bbs 0x10"
definition bbs5 :: "'d io_hooks \<Rightarrow> 16 word \<Rightarrow> 'd machine \<Rightarrow> 'd machine" where "bbs5 = bbs 0x20"
definition bbs6 :: "'d io_hooks \<Rightarrow> 16 word \<Rightarrow> 'd machine \<Rightarrow> 'd machine" where "bbs6 = bbs 0x40"
definition bbs7 :: "'d io_hooks \<Rightarrow> 16 word \<Rightarrow> 'd machine \<Rightarrow> 'd machine" where "bbs7 = bbs 0x80"

text \<open>
  \<^verbatim>\<open>IMPL_CPU_OP(OP, zprel, CODE, 2, 1)\<close>, the body shared by the sixteen opcode
  handlers \<^verbatim>\<open>bbr0_0f\<close> .. \<^verbatim>\<open>bbs7_ff\<close>: addressing mode with penalty 1, the operation,
  then two ticks.
\<close>

definition IMPL_CPU_OP_zprel ::
  "('d io_hooks \<Rightarrow> 16 word \<Rightarrow> 'd machine \<Rightarrow> 'd machine) \<Rightarrow> bool \<Rightarrow> 'd io_hooks \<Rightarrow> 'd machine \<Rightarrow> 'd machine" where
  "IMPL_CPU_OP_zprel OP pc_first h m =
     (let (addr, m1) = zprel pc_first h 1 m;
          m2 = OP h addr m1
      in m2\<lparr>CPU_perf_clock_ticks := CPU_perf_clock_ticks m2 + 2\<rparr>)"

text \<open>The sixteen bit-branch operations, in opcode order \<^verbatim>\<open>0f, 1f, .. ff\<close>.\<close>

definition bit_branch_ops :: "('d io_hooks \<Rightarrow> 16 word \<Rightarrow> 'd machine \<Rightarrow> 'd machine) list" where
  "bit_branch_ops = [bbr0, bbr1, bbr2, bbr3, bbr4, bbr5, bbr6, bbr7,
                     bbs0, bbs1, bbs2, bbs3, bbs4, bbs5, bbs6, bbs7]"

subsection \<open>States used to run the code\<close>

text \<open>
  C zero-initialises the globals; \<open>power_on\<close> is that state, with 256 RAM banks
  configured and no device record. \<open>no_io\<close> is an I/O page without devices.
\<close>

definition power_on :: "unit machine" where
  "power_on =
     \<lparr>CPU_pc = 0, CPU_sp = 0, CPU_a = 0, CPU_x = 0, CPU_y = 0, CPU_status = 0, CPU_wai = 0,
      CPU_ea = 0, CPU_perf_instructions = 0, CPU_perf_clock_ticks = 0, clockgoal6502 = 0,
      RAM = (\<lambda>_. 0), ROM = (\<lambda>_. 0), ram_bank = 0, rom_bank = 0, num_ram_banks = 256,
      memory_map_hi = replicate 0x100 0, memory_map_io = replicate 0x100 0, devices = ()\<rparr>"

definition no_io :: "unit io_hooks" where
  "no_io = \<lparr>real_io_read = (\<lambda>address m. (0, m)), io_write = (\<lambda>address v m. m)\<rparr>"

text \<open>
  The high-byte decode table as \<^verbatim>\<open>memory_init\<close> leaves it (it overwrites all 256 slots
  of the zero-initialised array).
\<close>

definition memory_map_ready :: "'d machine \<Rightarrow> bool" where
  "memory_map_ready m \<longleftrightarrow>
     memory_map_hi m = build_memory_map memmap_table_hi (replicate 0x100 0)"


subsection \<open>Runs of stack operations\<close>

text \<open>Pushing a sequence of bytes in order, and pulling \<open>n\<close> bytes in a row.\<close>

definition push_all :: "'d io_hooks \<Rightarrow> 8 word list \<Rightarrow> 'd machine \<Rightarrow> 'd machine" where
  "push_all h bs m = fold (push8 h) bs m"

fun pull_n :: "'d io_hooks \<Rightarrow> nat \<Rightarrow> 'd machine \<Rightarrow> 8 word list \<times> 'd machine" where
  "pull_n h 0 m = ([], m)"
| "pull_n h (Suc n) m =
     (let (v, m1) = pull8 h m; (vs, m2) = pull_n h n m1 in (v # vs, m2))"

subsection \<open>Scenario A: BRK at \<^verbatim>\<open>0x0200\<close>, RTI at \<^verbatim>\<open>0x1234\<close>\<close>

text \<open>
  The vector \<^verbatim>\<open>0xFFFE/F\<close> lies in ROM bank 0 at offsets \<^verbatim>\<open>0x3FFE\<close> and \<^verbatim>\<open>0x3FFF\<close>.
  \<open>scenario_optable\<close> holds the two handlers the scenario dispatches to.
\<close>

definition scenario_A :: "unit machine" where
  "scenario_A =
     (memory_init power_on)
       \<lparr>CPU_pc := 0x0200, CPU_sp := 0xFF, CPU_status := 0x24,
        RAM := (\<lambda>_. 0)(0x0200 := 0x00, 0x1234 := 0x40),
        ROM := (\<lambda>_. 0)(0x3FFE := 0x34, 0x3FFF := 0x12)\<rparr>"

definition scenario_optable :: "8 word \<Rightarrow> unit machine \<Rightarrow> unit machine" where
  "scenario_optable opcode =
     (if opcode = 0x00 then brk_00 no_io else if opcode = 0x40 then rti_40 no_io else (\<lambda>m. m))"

text \<open>
  A bit branch: \<^verbatim>\<open>BBS0 $10, +5\<close> at \<^verbatim>\<open>0x0300\<close> with bit 0 of \<^verbatim>\<open>$10\<close> set, the opcode
  byte already fetched. The branch target is \<^verbatim>\<open>0x0303 + 5 = 0x0308\<close>.
\<close>

definition scenario_bbs0 :: "unit machine" where
  "scenario_bbs0 =
     (memory_init power_on)
       \<lparr>CPU_pc := 0x0301, CPU_status := 0x20,
        RAM := (\<lambda>_. 0)(0x0300 := 0x8f, 0x0301 := 0x10, 0x0302 := 0x05, 0x0010 := 0x01)\<rparr>"

text \<open>The RAM index of the stack slot that stack pointer \<open>sp\<close> designates.\<close>

definition stack_slot :: "8 word \<Rightarrow> nat" where
  "stack_slot sp = 0x100 + unat sp"

text \<open>The 256 bytes \<open>0, 1, .., 255\<close>, pushed in this order when the stack is exercised.\<close>

definition stack_test_bytes :: "8 word list" where
  "stack_test_bytes = map of_nat [0..<256]"

section \<open>Video coprocessor (video.c)\<close>

text \<open>
  The C arrays of video.c are functions from the index; only the cells below the
  declared size belong to the state. \<^verbatim>\<open>video_ram\<close> has \<^verbatim>\<open>0x20000\<close> bytes and the three
  shadow buffers 2, 4 and 8 times as many. The layer and sprite property caches with
  their back buffers, the raster position, the PSG, PCM and SPI devices and the random
  generator are kept in the component \<open>render_state\<close>: the functions below do not
  compute with them, and the code that maintains them writes neither video RAM nor the
  shadow buffers, the palette, the sprite descriptors or the I/O registers.
\<close>

record 'c video =
  video_ram :: "nat \<Rightarrow> 8 word"
  video_ram_4bpp :: "nat \<Rightarrow> 8 word"
  video_ram_2bpp :: "nat \<Rightarrow> 8 word"
  video_ram_1bpp :: "nat \<Rightarrow> 8 word"
  palette :: "nat \<Rightarrow> 8 word"
  video_palette_dirty :: bool
  sprite_data :: "nat \<Rightarrow> nat \<Rightarrow> 8 word"
  io_addr :: "nat \<Rightarrow> 32 word"
  io_rddata :: "nat \<Rightarrow> 8 word"
  io_inc :: "nat \<Rightarrow> 8 word"
  io_addrsel :: "8 word"
  io_dcsel :: "8 word"
  ien :: "8 word"
  isr :: "8 word"
  irq_line :: "16 word"
  reg_layer :: "nat \<Rightarrow> nat \<Rightarrow> 8 word"
  reg_composer :: "nat \<Rightarrow> 8 word"
  render_state :: 'c

text \<open>
  The calls that leave the modelled state, each returning the new \<open>render_state\<close>:
  \<^verbatim>\<open>psg_writereg\<close>; \<^verbatim>\<open>refresh_sprite_properties\<close>; the two loops at the end of
  \<^verbatim>\<open>video_space_write\<close> that poke layer and sprite back buffers; the part of
  \<^verbatim>\<open>video_reset\<close> that resets caches, raster position and audio; the cache updates
  that follow a write to a composer or layer register; the PCM and SPI registers.
  \<open>rand_bytes\<close> gives the bytes that \<^verbatim>\<open>rand()\<close> delivers to one \<^verbatim>\<open>video_reset\<close>.
\<close>

record 'c video_hooks =
  psg_writereg :: "8 word \<Rightarrow> 8 word \<Rightarrow> 'c video \<Rightarrow> 'c"
  refresh_sprite_properties :: "nat \<Rightarrow> 'c video \<Rightarrow> 'c"
  poke_backbuffers :: "32 word \<Rightarrow> 8 word \<Rightarrow> 'c video \<Rightarrow> 'c"
  reset_render :: "'c video \<Rightarrow> 'c"
  rand_bytes :: "'c video \<Rightarrow> nat \<Rightarrow> 8 word"
  composer_written :: "nat \<Rightarrow> 8 word \<Rightarrow> 'c video \<Rightarrow> 'c"
  layer_written :: "nat \<Rightarrow> nat \<Rightarrow> 8 word \<Rightarrow> 'c video \<Rightarrow> 'c"
  pcm_is_fifo_almost_empty :: "'c video \<Rightarrow> bool"
  pcm_spi_read :: "8 word \<Rightarrow> 'c video \<Rightarrow> 8 word \<times> 'c"
  pcm_spi_write :: "8 word \<Rightarrow> 8 word \<Rightarrow> 'c video \<Rightarrow> 'c"

definition ADDR_VRAM_START :: "32 word" where [simp]: "ADDR_VRAM_START = 0x00000"
definition ADDR_VRAM_END :: "32 word" where [simp]: "ADDR_VRAM_END = 0x20000"
definition ADDR_PSG_START :: "32 word" where [simp]: "ADDR_PSG_START = 0x1F9C0"
definition ADDR_PSG_END :: "32 word" where [simp]: "ADDR_PSG_END = 0x1FA00"
definition ADDR_PALETTE_START :: "32 word" where [simp]: "ADDR_PALETTE_START = 0x1FA00"
definition ADDR_PALETTE_END :: "32 word" where [simp]: "ADDR_PALETTE_END = 0x1FC00"
definition ADDR_SPRDATA_START :: "32 word" where [simp]: "ADDR_SPRDATA_START = 0x1FC00"
definition ADDR_SPRDATA_END :: "32 word" where [simp]: "ADDR_SPRDATA_END = 0x20000"
definition VIDEO_RAM_SIZE :: nat where [simp]: "VIDEO_RAM_SIZE = 0x20000"

definition default_palette :: "16 word list" where
  "default_palette =
    [
     0x000, 0xfff, 0x800, 0xafe, 0xc4c, 0x0c5, 0x00a, 0xee7, 0xd85, 0x640, 0xf77, 0x333,
     0x777, 0xaf6, 0x08f, 0xbbb, 0x000, 0x111, 0x222, 0x333, 0x444, 0x555, 0x666, 0x777,
     0x888, 0x999, 0xaaa, 0xbbb, 0xccc, 0xddd, 0xeee, 0xfff, 0x211, 0x433, 0x644, 0x866,
     0xa88, 0xc99, 0xfbb, 0x211, 0x422, 0x633, 0x844, 0xa55, 0xc66, 0xf77, 0x200, 0x411,
     0x611, 0x822, 0xa22, 0xc33, 0xf33, 0x200, 0x400, 0x600, 0x800, 0xa00, 0xc00, 0xf00,
     0x221, 0x443, 0x664, 0x886, 0xaa8, 0xcc9, 0xfeb, 0x211, 0x432, 0x653, 0x874, 0xa95,
     0xcb6, 0xfd7, 0x210, 0x431, 0x651, 0x862, 0xa82, 0xca3, 0xfc3, 0x210, 0x430, 0x640,
     0x860, 0xa80, 0xc90, 0xfb0, 0x121, 0x343, 0x564, 0x786, 0x9a8, 0xbc9, 0xdfb, 0x121,
     0x342, 0x463, 0x684, 0x8a5, 0x9c6, 0xbf7, 0x120, 0x241, 0x461, 0x582, 0x6a2, 0x8c3,
     0x9f3, 0x120, 0x240, 0x360, 0x480, 0x5a0, 0x6c0, 0x7f0, 0x121, 0x343, 0x465, 0x686,
     0x8a8, 0x9ca, 0xbfc, 0x121, 0x242, 0x364, 0x485, 0x5a6, 0x6c8, 0x7f9, 0x020, 0x141,
     0x162, 0x283, 0x2a4, 0x3c5, 0x3f6, 0x020, 0x041, 0x061, 0x082, 0x0a2, 0x0c3, 0x0f3,
     0x122, 0x344, 0x466, 0x688, 0x8aa, 0x9cc, 0xbff, 0x122, 0x244, 0x366, 0x488, 0x5aa,
     0x6cc, 0x7ff, 0x022, 0x144, 0x166, 0x288, 0x2aa, 0x3cc, 0x3ff, 0x022, 0x044, 0x066,
     0x088, 0x0aa, 0x0cc, 0x0ff, 0x112, 0x334, 0x456, 0x668, 0x88a, 0x9ac, 0xbcf, 0x112,
     0x224, 0x346, 0x458, 0x56a, 0x68c, 0x79f, 0x002, 0x114, 0x126, 0x238, 0x24a, 0x35c,
     0x36f, 0x002, 0x014, 0x016, 0x028, 0x02a, 0x03c, 0x03f, 0x112, 0x334, 0x546, 0x768,
     0x98a, 0xb9c, 0xdbf, 0x112, 0x324, 0x436, 0x648, 0x85a, 0x96c, 0xb7f, 0x102, 0x214,
     0x416, 0x528, 0x62a, 0x83c, 0x93f, 0x102, 0x204, 0x306, 0x408, 0x50a, 0x60c, 0x70f,
     0x212, 0x434, 0x646, 0x868, 0xa8a, 0xc9c, 0xfbe, 0x211, 0x423, 0x635, 0x847, 0xa59,
     0xc6b, 0xf7d, 0x201, 0x413, 0x615, 0x826, 0xa28, 0xc3a, 0xf3c, 0x201, 0x403, 0x604,
     0x806, 0xa08, 0xc09, 0xf0b]"

subsection \<open>Shadow buffers\<close>

text \<open>
  \<^verbatim>\<open>expand_4bpp_data(dst, src, dst_size)\<close> and its 2bpp and 1bpp siblings. A pointer is
  an array with an offset: \<open>dst\<close> at \<open>d\<close>, \<open>src\<close> at \<open>s\<close>. The source is never the
  destination array in the calls of video.c.
\<close>

function expand_4bpp_data ::
  "(nat \<Rightarrow> 8 word) \<Rightarrow> nat \<Rightarrow> (nat \<Rightarrow> 8 word) \<Rightarrow> nat \<Rightarrow> int \<Rightarrow> (nat \<Rightarrow> 8 word)" where
  "expand_4bpp_data dst d src s dst_size =
     (if dst_size \<ge> 2 then
        expand_4bpp_data
          (dst(d := drop_bit 4 (src s),
               d + 1 := src s AND 0xf))
          (d + 2) src (s + 1) (dst_size - 2)
      else dst)"
  by pat_completeness auto
termination
  by (relation "measure (\<lambda>(dst, d, src, s, dst_size). nat dst_size)") auto

function expand_2bpp_data ::
  "(nat \<Rightarrow> 8 word) \<Rightarrow> nat \<Rightarrow> (nat \<Rightarrow> 8 word) \<Rightarrow> nat \<Rightarrow> int \<Rightarrow> (nat \<Rightarrow> 8 word)" where
  "expand_2bpp_data dst d src s dst_size =
     (if dst_size \<ge> 4 then
        expand_2bpp_data
          (dst(d := drop_bit 6 (src s),
               d + 1 := drop_bit 4 (src s) AND 0x3,
               d + 2 := drop_bit 2 (src s) AND 0x3,
               d + 3 := src s AND 0x3))
          (d + 4) src (s + 1) (dst_size - 4)
      else dst)"
  by pat_completeness auto
termination
  by (relation "measure (\<lambda>(dst, d, src, s, dst_size). nat dst_size)") auto

function expand_1bpp_data ::
  "(nat \<Rightarrow> 8 word) \<Rightarrow> nat \<Rightarrow> (nat \<Rightarrow> 8 word) \<Rightarrow> nat \<Rightarrow> int \<Rightarrow> (nat \<Rightarrow> 8 word)" where
  "expand_1bpp_data dst d src s dst_size =
     (if dst_size \<ge> 8 then
        expand_1bpp_data
          (dst(d := drop_bit 7 (src s),
               d + 1 := drop_bit 6 (src s) AND 0x1,
               d + 2 := drop_bit 5 (src s) AND 0x1,
               d + 3 := drop_bit 4 (src s) AND 0x1,
               d + 4 := drop_bit 3 (src s) AND 0x1,
               d + 5 := drop_bit 2 (src s) AND 0x1,
               d + 6 := drop_bit 1 (src s) AND 0x1,
               d + 7 := src s AND 0x1))
          (d + 8) src (s + 1) (dst_size - 8)
      else dst)"
  by pat_completeness auto
termination
  by (relation "measure (\<lambda>(dst, d, src, s, dst_size). nat dst_size)") auto

subsection \<open>Reset\<close>

text \<open>
  \<^verbatim>\<open>video_reset\<close>. The \<^verbatim>\<open>memcpy\<close> into \<^verbatim>\<open>palette\<close> is overwritten byte by byte by the
  loop after it, whose result is written out here. Video RAM is filled with the bytes
  of \<^verbatim>\<open>rand()\<close> and the three shadow buffers are expanded from it in full.
\<close>

definition video_reset :: "'c video_hooks \<Rightarrow> 'c video \<Rightarrow> 'c video" where
  "video_reset k v =
     (let v1 = v\<lparr>io_addr := (\<lambda>_. 0), io_inc := (\<lambda>_. 0), io_addrsel := 0, io_dcsel := 0,
                 io_rddata := (io_rddata v)(0 := 0, 1 := 0),
                 ien := 0, isr := 0, irq_line := 0,
                 reg_layer := (\<lambda>_ _. 0),
                 reg_composer := (\<lambda>_. 0)(1 := 128, 2 := 128, 5 := 160, 7 := 240),
                 sprite_data := (\<lambda>_ _. 0),
                 palette := (\<lambda>i. if i < 512 then
                                     (if even i then ucast (default_palette ! (i div 2) AND 0xff)
                                      else ucast (drop_bit 8 (default_palette ! (i div 2))))
                                   else palette v i)\<rparr>;
          v2 = v1\<lparr>video_ram := (\<lambda>i. if i < 128 * 1024 then rand_bytes k v1 i else video_ram v1 i)\<rparr>;
          v3 = v2\<lparr>video_ram_4bpp :=
                    expand_4bpp_data (video_ram_4bpp v2) 0 (video_ram v2) 0 (int (VIDEO_RAM_SIZE * 2))\<rparr>;
          v4 = v3\<lparr>video_ram_2bpp :=
                    expand_2bpp_data (video_ram_2bpp v3) 0 (video_ram v3) 0 (int (VIDEO_RAM_SIZE * 4))\<rparr>;
          v5 = v4\<lparr>video_ram_1bpp :=
                    expand_1bpp_data (video_ram_1bpp v4) 0 (video_ram v4) 0 (int (VIDEO_RAM_SIZE * 8))\<rparr>
      in v5\<lparr>render_state := reset_render k v5\<rparr>)"

subsection \<open>Video address space\<close>

definition video_space_read :: "32 word \<Rightarrow> 'c video \<Rightarrow> 8 word" where
  "video_space_read address v = video_ram v (unat (address AND 0x1FFFF))"

text \<open>
  \<^verbatim>\<open>video_space_write\<close>: the byte goes to video RAM at the address masked to 17 bits
  and is expanded into the three shadow buffers; then the PSG, palette and sprite
  windows are mirrored, and below \<^verbatim>\<open>ADDR_PSG_START\<close> the back buffers are poked.
\<close>

definition video_space_write :: "'c video_hooks \<Rightarrow> 32 word \<Rightarrow> 8 word \<Rightarrow> 'c video \<Rightarrow> 'c video" where
  "video_space_write k address val v =
     (let wrap_address = unat (address AND 0x1FFFF);
          v1 = v\<lparr>video_ram := (video_ram v)(wrap_address := val)\<rparr>;
          v2 = v1\<lparr>video_ram_4bpp :=
                    expand_4bpp_data (video_ram_4bpp v1) (push_bit 1 wrap_address)
                      (video_ram v1) wrap_address 2\<rparr>;
          v3 = v2\<lparr>video_ram_2bpp :=
                    expand_2bpp_data (video_ram_2bpp v2) (push_bit 2 wrap_address)
                      (video_ram v2) wrap_address 4\<rparr>;
          v4 = v3\<lparr>video_ram_1bpp :=
                    expand_1bpp_data (video_ram_1bpp v3) (push_bit 3 wrap_address)
                      (video_ram v3) wrap_address 8\<rparr>;
          v5 = (if address \<ge> ADDR_PSG_START \<and> address < ADDR_PSG_END then
                  v4\<lparr>render_state := psg_writereg k (ucast (address AND 0x3f)) val v4\<rparr>
                else if address \<ge> ADDR_PALETTE_START \<and> address < ADDR_PALETTE_END then
                  v4\<lparr>palette := (palette v4)(unat (address AND 0x1ff) := val),
                     video_palette_dirty := True\<rparr>
                else if address \<ge> ADDR_SPRDATA_START \<and> address < ADDR_SPRDATA_END then
                  (let s = unat (drop_bit 3 address AND 0x7f);
                       v' = v4\<lparr>sprite_data :=
                                 (sprite_data v4)(s := (sprite_data v4 s)(unat (address AND 0x7) := val))\<rparr>
                   in v'\<lparr>render_state := refresh_sprite_properties k s v'\<rparr>)
                else v4)
      in if address \<ge> ADDR_PSG_START then v5
         else v5\<lparr>render_state := poke_backbuffers k address val v5\<rparr>)"

subsection \<open>I/O registers\<close>

definition increments :: "32 word list" where
  "increments =
     [0, 0, 1, - 1, 2, - 2, 4, - 4, 8, - 8, 16, - 16, 32, - 32, 64, - 64,
      128, - 128, 256, - 256, 512, - 512, 40, - 40, 80, - 80, 160, - 160,
      320, - 320, 640, - 640]"

text \<open>
  \<^verbatim>\<open>get_and_inc_address\<close>: the \<^verbatim>\<open>int\<close> increment is added to the \<^verbatim>\<open>uint32_t\<close> cursor
  modulo \<open>2 ^ 32\<close>. \<^verbatim>\<open>io_inc\<close> holds a 5-bit code after any write to register 2.
\<close>

definition get_and_inc_address :: "nat \<Rightarrow> 'c video \<Rightarrow> 32 word \<times> 'c video" where
  "get_and_inc_address sel v =
     (io_addr v sel,
      v\<lparr>io_addr := (io_addr v)(sel := io_addr v sel + increments ! unat (io_inc v sel))\<rparr>)"

text \<open>
  \<^verbatim>\<open>video_read(reg, debugOn)\<close>, returning the value and the new state. The data ports
  3 and 4 use the index \<^verbatim>\<open>reg - 3\<close>; the bus passes \<^verbatim>\<open>reg\<close> below \<^verbatim>\<open>0x20\<close>. The trace
  output under \<^verbatim>\<open>log_video\<close> has no effect on the state.
\<close>

definition video_read :: "'c video_hooks \<Rightarrow> 8 word \<Rightarrow> bool \<Rightarrow> 'c video \<Rightarrow> 8 word \<times> 'c video" where
  "video_read k reg debugOn v =
     (let r = reg AND 0x1F; sel = unat (io_addrsel v) in
      if r = 0x00 then (ucast (io_addr v sel AND 0xff), v)
      else if r = 0x01 then (ucast (drop_bit 8 (io_addr v sel) AND 0xff), v)
      else if r = 0x02 then
        (ucast (drop_bit 16 (io_addr v sel) OR push_bit 3 (ucast (io_inc v sel))), v)
      else if r = 0x03 \<or> r = 0x04 then
        (if debugOn then (io_rddata v (unat reg - 3), v)
         else
           (let (address, v1) = get_and_inc_address (unat reg - 3) v;
                val = io_rddata v1 (unat reg - 3)
            in (val, v1\<lparr>io_rddata := (io_rddata v1)
                          (unat reg - 3 := video_space_read (io_addr v1 (unat reg - 3)) v1)\<rparr>)))
      else if r = 0x05 then (push_bit 1 (io_dcsel v) OR io_addrsel v, v)
      else if r = 0x06 then (ucast (drop_bit 1 (irq_line v AND 0x100)) OR (ien v AND 0xF), v)
      else if r = 0x07 then (isr v OR (if pcm_is_fifo_almost_empty k v then 8 else 0), v)
      else if r = 0x08 then (ucast (irq_line v AND 0xFF), v)
      else if r \<le> 0x0C then
        (reg_composer v (unat reg - 0x09 + (if io_dcsel v \<noteq> 0 then 4 else 0)), v)
      else if r \<le> 0x13 then (reg_layer v 0 (unat reg - 0x0D), v)
      else if r \<le> 0x1A then (reg_layer v 1 (unat reg - 0x14), v)
      else if r = 0x1D then (0, v)
      else (let (val, c) = pcm_spi_read k reg v in (val, v\<lparr>render_state := c\<rparr>)))"

text \<open>
  \<^verbatim>\<open>video_write(reg, value)\<close>. Registers 0 to 8 are computed in full. For the composer
  and layer registers the register array is stored and the cache maintenance that the
  source does around the store is the hook's; it sees the state before the store.
\<close>

definition video_write :: "'c video_hooks \<Rightarrow> 8 word \<Rightarrow> 8 word \<Rightarrow> 'c video \<Rightarrow> 'c video" where
  "video_write k reg val v =
     (let r = reg AND 0x1F; sel = unat (io_addrsel v) in
      if r = 0x00 then
        (let v1 = v\<lparr>io_addr := (io_addr v)(sel := (io_addr v sel AND 0x1ff00) OR ucast val)\<rparr>
         in v1\<lparr>io_rddata := (io_rddata v1)(sel := video_space_read (io_addr v1 sel) v1)\<rparr>)
      else if r = 0x01 then
        (let v1 = v\<lparr>io_addr := (io_addr v)
                       (sel := (io_addr v sel AND 0x100ff) OR push_bit 8 (ucast val))\<rparr>
         in v1\<lparr>io_rddata := (io_rddata v1)(sel := video_space_read (io_addr v1 sel) v1)\<rparr>)
      else if r = 0x02 then
        (let v1 = v\<lparr>io_addr := (io_addr v)
                       (sel := (io_addr v sel AND 0x0ffff) OR push_bit 16 (ucast (val AND 0x1)))\<rparr>;
             v2 = v1\<lparr>io_inc := (io_inc v1)(sel := drop_bit 3 val)\<rparr>
         in v2\<lparr>io_rddata := (io_rddata v2)(sel := video_space_read (io_addr v2 sel) v2)\<rparr>)
      else if r = 0x03 \<or> r = 0x04 then
        (let (address, v1) = get_and_inc_address (unat reg - 3) v;
             v2 = video_space_write k address val v1
         in v2\<lparr>io_rddata := (io_rddata v2)
                   (unat reg - 3 := video_space_read (io_addr v2 (unat reg - 3)) v2)\<rparr>)
      else if r = 0x05 then
        (let v1 = (if val AND 0x80 \<noteq> 0 then video_reset k v else v)
         in v1\<lparr>io_dcsel := drop_bit 1 val AND 1, io_addrsel := val AND 1\<rparr>)
      else if r = 0x06 then
        v\<lparr>irq_line := (irq_line v AND 0xFF) OR push_bit 8 (ucast (drop_bit 7 val)),
          ien := val AND 0xF\<rparr>
      else if r = 0x07 then v\<lparr>isr := isr v AND (val XOR 0xff)\<rparr>
      else if r = 0x08 then v\<lparr>irq_line := (irq_line v AND 0x100) OR ucast val\<rparr>
      else if r \<le> 0x0C then
        (let i = unat reg - 0x09 + (if io_dcsel v \<noteq> 0 then 4 else 0);
             v1 = v\<lparr>reg_composer := (reg_composer v)(i := val)\<rparr>
         in if i = 0 then v1\<lparr>render_state := composer_written k i val v1\<rparr> else v1)
      else if r \<le> 0x13 then
        (let v1 = v\<lparr>render_state := layer_written k 0 (unat reg - 0x0D) val v\<rparr>
         in v1\<lparr>reg_layer := (reg_layer v1)(0 := (reg_layer v1 0)(unat reg - 0x0D := val))\<rparr>)
      else if r \<le> 0x1A then
        (let v1 = v\<lparr>render_state := layer_written k 1 (unat reg - 0x14) val v\<rparr>
         in v1\<lparr>reg_layer := (reg_layer v1)(1 := (reg_layer v1 1)(unat reg - 0x14 := val))\<rparr>)
      else v\<lparr>render_state := pcm_spi_write k reg val v\<rparr>)"

text \<open>Reading a data port \<open>n\<close> times in a row (not in debug mode).\<close>

fun read_n :: "'c video_hooks \<Rightarrow> 8 word \<Rightarrow> nat \<Rightarrow> 'c video \<Rightarrow> 8 word list \<times> 'c video" where
  "read_n k reg 0 v = ([], v)"
| "read_n k reg (Suc n) v =
     (let (b, v1) = video_read k reg False v; (bs, v2) = read_n k reg n v1 in (b # bs, v2))"

text \<open>
  The video state of a program that has just been loaded (C zero-initialises the
  arrays), and hooks that leave the unit \<open>render_state\<close> alone and deliver zeros.
\<close>

definition video_power_on :: "unit video" where
  "video_power_on =
     \<lparr>video_ram = (\<lambda>_. 0), video_ram_4bpp = (\<lambda>_. 0), video_ram_2bpp = (\<lambda>_. 0),
      video_ram_1bpp = (\<lambda>_. 0), palette = (\<lambda>_. 0), video_palette_dirty = False,
      sprite_data = (\<lambda>_ _. 0), io_addr = (\<lambda>_. 0), io_rddata = (\<lambda>_. 0), io_inc = (\<lambda>_. 0),
      io_addrsel = 0, io_dcsel = 0, ien = 0, isr = 0, irq_line = 0,
      reg_layer = (\<lambda>_ _. 0), reg_composer = (\<lambda>_. 0), render_state = ()\<rparr>"

definition no_video_hooks :: "unit video_hooks" where
  "no_video_hooks =
     \<lparr>psg_writereg = (\<lambda>_ _ _. ()), refresh_sprite_properties = (\<lambda>_ _. ()),
      poke_backbuffers = (\<lambda>_ _ _. ()), reset_render = (\<lambda>_. ()),
      rand_bytes = (\<lambda>_ _. 0), composer_written = (\<lambda>_ _ _. ()),
      layer_written = (\<lambda>_ _ _ _. ()), pcm_is_fifo_almost_empty = (\<lambda>_. False),
      pcm_spi_read = (\<lambda>_ _. (0, ())), pcm_spi_write = (\<lambda>_ _ _. ())\<rparr>"

subsection \<open>Shadow consistency\<close>

text \<open>
  Field \<open>j\<close> of a byte cut into fields of \<open>bpp\<close> bits, most significant field first:
  the bit-unpack of the byte has \<open>8 div bpp\<close> such fields.
\<close>

definition bit_unpack :: "nat \<Rightarrow> 8 word \<Rightarrow> nat \<Rightarrow> 8 word" where
  "bit_unpack bpp b j = drop_bit (8 - bpp * (j + 1)) b AND mask bpp"

definition shadow_consistent :: "'c video \<Rightarrow> bool" where
  "shadow_consistent v \<longleftrightarrow>
     (\<forall>a<VIDEO_RAM_SIZE.
        (\<forall>j<2. video_ram_4bpp v (a * 2 + j) = bit_unpack 4 (video_ram v a) j) \<and>
        (\<forall>j<4. video_ram_2bpp v (a * 4 + j) = bit_unpack 2 (video_ram v a) j) \<and>
        (\<forall>j<8. video_ram_1bpp v (a * 8 + j) = bit_unpack 1 (video_ram v a) j))"

text \<open>
  The video states a run can reach: from the zero-initialised arrays, by
  \<^verbatim>\<open>video_reset\<close>, \<^verbatim>\<open>video_space_write\<close>, \<^verbatim>\<open>video_write\<close> and \<^verbatim>\<open>video_read\<close>.
\<close>

inductive video_reachable :: "'c video_hooks \<Rightarrow> 'c video \<Rightarrow> bool" for k where
  loaded:
    "video_ram v = (\<lambda>_. 0) \<Longrightarrow> video_ram_4bpp v = (\<lambda>_. 0) \<Longrightarrow>
     video_ram_2bpp v = (\<lambda>_. 0) \<Longrightarrow> video_ram_1bpp v = (\<lambda>_. 0) \<Longrightarrow> video_reachable k v"
| reset: "video_reachable k v \<Longrightarrow> video_reachable k (video_reset k v)"
| space_write: "video_reachable k v \<Longrightarrow> video_reachable k (video_space_write k address val v)"
| reg_write: "video_reachable k v \<Longrightarrow> video_reachable k (video_write k reg val v)"
| reg_read: "video_reachable k v \<Longrightarrow> video_reachable k (snd (video_read k reg debugOn v))"

section \<open>Properties of the memory bus\<close>

lemma fold_upd_len: "length (fold (\<lambda>i m. m[i := t]) [a..<b] m0) = length m0"
  by (induction b) auto

lemma fold_upd_nth:
  "n < length m0 \<Longrightarrow>
   fold (\<lambda>i m. m[i := t]) [a..<b] m0 ! n = (if a \<le> n \<and> n < b then t else m0 ! n)"
  by (induction b) (auto simp: nth_list_update fold_upd_len less_Suc_eq)

lemma fill_entry_len: "length (fill_entry e m0) = length m0"
  unfolding fill_entry_def by (rule fold_upd_len)

lemma fill_entry_nth:
  "n < length m0 \<Longrightarrow>
   fill_entry e m0 ! n =
     (if entry_start e \<le> n \<and> n \<le> final_entry e then memory_type e else m0 ! n)"
  unfolding fill_entry_def by (subst fold_upd_nth) auto

lemma memory_map_hi_nth:
  "n < 256 \<Longrightarrow> length m0 = 256 \<Longrightarrow>
   build_memory_map memmap_table_hi m0 ! n =
     (if n < 0x9f then MEMMAP_DIRECT else if n < 0xa0 then MEMMAP_IO
      else if n < 0xc0 then MEMMAP_RAMBANK else MEMMAP_ROMBANK)"
  by (simp add: memmap_table_hi_def fill_entry_nth fill_entry_len)

lemma page_of_address: "unat (drop_bit 8 (address :: 16 word)) = unat address div 256"
  unfolding unat_drop_bit_eq by (simp add: drop_bit_eq_div)

lemma page_lt: "unat (drop_bit 8 (address :: 16 word)) < 256"
proof -
  have "unat address < 65536" using unsigned_less [of address] by simp
  then show ?thesis by (simp add: page_of_address)
qed

text \<open>After \<^verbatim>\<open>memory_init\<close> the high byte of an address selects the four regions.\<close>

lemma ready_decode:
  assumes "memory_map_ready m"
  shows "memory_map_hi m ! unat (drop_bit 8 (address :: 16 word)) =
     (if unat address < 0x9f00 then MEMMAP_DIRECT else if unat address < 0xa000 then MEMMAP_IO
      else if unat address < 0xc000 then MEMMAP_RAMBANK else MEMMAP_ROMBANK)"
proof -
  let ?p = "unat (drop_bit 8 address)"
  have "memory_map_hi m ! ?p = build_memory_map memmap_table_hi (replicate 0x100 0) ! ?p"
    using assms by (simp add: memory_map_ready_def)
  also have "\<dots> = (if ?p < 0x9f then MEMMAP_DIRECT else if ?p < 0xa0 then MEMMAP_IO
                     else if ?p < 0xc0 then MEMMAP_RAMBANK else MEMMAP_ROMBANK)"
    by (rule memory_map_hi_nth) (simp_all add: page_lt)
  also have "\<dots> = (if unat address < 0x9f00 then MEMMAP_DIRECT
                     else if unat address < 0xa000 then MEMMAP_IO
                     else if unat address < 0xc000 then MEMMAP_RAMBANK else MEMMAP_ROMBANK)"
    unfolding page_of_address by auto
  finally show ?thesis .
qed

lemma read6502_direct:
  "memory_map_ready m \<Longrightarrow> unat address < 0x9f00 \<Longrightarrow>
   read6502 h address m = (RAM m (unat address), m)"
  by (simp add: read6502_def real_read6502_def ready_decode Let_def)

lemma read6502_rom:
  "memory_map_ready m \<Longrightarrow> 0xc000 \<le> unat address \<Longrightarrow>
   read6502 h address m = (real_rom_read address m, m)"
  by (simp add: read6502_def real_read6502_def ready_decode Let_def)

lemma write6502_direct:
  "memory_map_ready m \<Longrightarrow> unat address < 0x9f00 \<Longrightarrow>
   write6502 h address v m = m\<lparr>RAM := (RAM m)(unat address := v)\<rparr>"
  by (simp add: write6502_def ready_decode Let_def)

lemma ready_init: "memory_map_ready (memory_init power_on)"
  by (simp add: memory_map_ready_def memory_init_def power_on_def)

lemma ready_update [simp]:
  "memory_map_ready (m\<lparr>CPU_a := a\<rparr>) = memory_map_ready m"
  "memory_map_ready (m\<lparr>CPU_status := p\<rparr>) = memory_map_ready m"
  "memory_map_ready (m\<lparr>CPU_pc := pc\<rparr>) = memory_map_ready m"
  "memory_map_ready (m\<lparr>CPU_sp := sp\<rparr>) = memory_map_ready m"
  "memory_map_ready (m\<lparr>CPU_ea := ea\<rparr>) = memory_map_ready m"
  "memory_map_ready (m\<lparr>CPU_perf_clock_ticks := t\<rparr>) = memory_map_ready m"
  "memory_map_ready (m\<lparr>CPU_perf_instructions := t\<rparr>) = memory_map_ready m"
  "memory_map_ready (m\<lparr>clockgoal6502 := t\<rparr>) = memory_map_ready m"
  "memory_map_ready (m\<lparr>RAM := r\<rparr>) = memory_map_ready m"
  "memory_map_ready (m\<lparr>ROM := r\<rparr>) = memory_map_ready m"
  by (simp_all add: memory_map_ready_def)

section \<open>Properties of the CPU core\<close>

subsection \<open>ADC\<close>

text \<open>
  C1. Binary ADC is specified to set \<open>Z\<close> from the low byte of the 16-bit sum and \<open>V\<close>
  from \<open>(r16 XOR a) AND (r16 XOR m) AND 0x80\<close>. Run on \<open>a = 0x40\<close>, \<open>m = 0xC0\<close> with
  carry clear (sum \<open>0x100\<close>, so the specified flags are \<open>C = 1\<close>, \<open>Z = 1\<close>, \<open>N = 0\<close>,
  \<open>V = 0\<close>, status \<open>0x23\<close>), \<^verbatim>\<open>adcx\<close> stores \<open>0x00\<close> into A but leaves status \<open>0x61\<close>:
  \<open>Z\<close> is clear, because \<^verbatim>\<open>select_zero\<close> tests all 16 bits of the sum, and \<open>V\<close> is set,
  because of the operator precedence inside \<^verbatim>\<open>select_overflow\<close>.
\<close>

theorem adcx_at_40_C0:
  "(let m = (memory_init power_on)
              \<lparr>CPU_a := 0x40, CPU_status := 0x20, RAM := (\<lambda>_. 0)(0x10 := 0xC0)\<rparr>;
        m' = adcx no_io 0x10 m
    in CPU_a m' = 0x00 \<and> CPU_status m' = 0x61)"
  by (simp add: Let_def adcx_def read6502_direct ready_init clearflags_def
        select_zero_def select_carry_def select_sign_def select_overflow_def)

text \<open>
  Whatever the operands, decimal ADC leaves \<open>Z\<close>, \<open>C\<close>, \<open>N\<close> and \<open>V\<close> cleared.
\<close>

lemma adcd_flags_cleared:
  "CPU_status (adcd h addr m) AND (FLAG_ZERO OR FLAG_CARRY OR FLAG_SIGN OR FLAG_OVERFLOW) = 0"
  by (simp add: adcd_def clearflags_def Let_def and.assoc split: prod.split)

text \<open>
  C2. Decimal ADC is specified to set \<open>Z\<close>, \<open>C\<close>, \<open>N\<close> and \<open>V\<close> from the sum after the
  decimal fix-up. Run on \<open>a = 0x99\<close>, \<open>m = 0x01\<close> with carry clear and \<open>D\<close> set (status
  \<open>0x28\<close>), the fixed-up sum is \<open>0x100\<close>: \<^verbatim>\<open>adcd\<close> stores its low byte \<open>0x00\<close> into A,
  but the status stays \<open>0x28\<close>, without the carry out of the sum.
\<close>

theorem adcd_at_99_01:
  "(let m = (memory_init power_on)
              \<lparr>CPU_a := 0x99, CPU_status := 0x28, RAM := (\<lambda>_. 0)(0x10 := 0x01)\<rparr>;
        m' = adcd no_io 0x10 m
    in CPU_a m' = 0x00 \<and> CPU_status m' = 0x28)"
  by (simp add: Let_def adcd_def read6502_direct ready_init clearflags_def)


subsection \<open>BRK and RTI\<close>

text \<open>
  The two steps of Scenario A, computed on any machine that satisfies its set-up.
\<close>

lemma brk_rti_steps:
  assumes ready: "memory_map_ready m"
    and tab: "optable 0x00 = brk_00 h" "optable 0x40 = rti_40 h"
    and prog: "RAM m 0x0200 = 0x00" "RAM m 0x1234 = 0x40"
    and vec: "real_rom_read 0xFFFE m = 0x34" "real_rom_read 0xFFFF m = 0x12"
    and regs: "CPU_pc m = 0x0200" "CPU_sp m = 0xFF" "CPU_status m = 0x24" "CPU_wai m = 0"
  shows "step6502 optable h m =
           m\<lparr>CPU_pc := 0x1234, CPU_sp := 0xFC, CPU_status := 0x24,
             CPU_perf_instructions := CPU_perf_instructions m + 1,
             CPU_perf_clock_ticks := CPU_perf_clock_ticks m + 7,
             clockgoal6502 := CPU_perf_clock_ticks m + 7,
             RAM := (RAM m)(0x1FF := 0x02, 0x1FE := 0x02, 0x1FD := 0x34)\<rparr>"
    (is "?s1 = ?m1")
  and "step6502 optable h (step6502 optable h m) =
           m\<lparr>CPU_pc := 0x0202, CPU_sp := 0xFF, CPU_status := 0x34,
             CPU_perf_instructions := CPU_perf_instructions m + 2,
             CPU_perf_clock_ticks := CPU_perf_clock_ticks m + 13,
             clockgoal6502 := CPU_perf_clock_ticks m + 13,
             RAM := (RAM m)(0x1FF := 0x02, 0x1FE := 0x02, 0x1FD := 0x34)\<rparr>"
    (is "?s2 = ?m2")
proof -
  show s1: "?s1 = ?m1"
    using ready tab prog vec regs
    by (simp add: step6502_def read8_def brk_00_def brk_def push16_def push8_def
          setinterrupt_def cleardecimal_def read6502_direct read6502_rom write6502_direct
          Let_def real_rom_read_def)
  show "?s2 = ?m2"
    unfolding s1 using ready tab prog regs
    by (simp add: step6502_def read8_def rti_40_def rti_def pull8_def pull16_def
          read6502_direct Let_def)
qed

lemma scenario_A_ready: "memory_map_ready scenario_A"
  by (simp add: scenario_A_def ready_init)

lemma scenario_A_setup:
  "memory_map_ready scenario_A"
  "scenario_optable 0x00 = brk_00 no_io" "scenario_optable 0x40 = rti_40 no_io"
  "RAM scenario_A 0x0200 = 0x00" "RAM scenario_A 0x1234 = 0x40"
  "real_rom_read 0xFFFE scenario_A = 0x34" "real_rom_read 0xFFFF scenario_A = 0x12"
  "CPU_pc scenario_A = 0x0200" "CPU_sp scenario_A = 0xFF"
  "CPU_status scenario_A = 0x24" "CPU_wai scenario_A = 0"
  by (simp_all add: scenario_A_ready)
     (simp_all add: scenario_A_def scenario_optable_def real_rom_read_def
        memory_init_def power_on_def)

text \<open>
  C3 as stated: after the two steps of Scenario A the status register is \<open>0x24\<close>.
  On the code it is not.
\<close>

theorem brk_rti_status_counterexample:
  "CPU_status (step6502 scenario_optable no_io (step6502 scenario_optable no_io scenario_A)) \<noteq> 0x24"
  by (simp add: brk_rti_steps(2) [OF scenario_A_setup])

text \<open>
  C3, amended. With the IRQ/BRK vector \<^verbatim>\<open>0xFFFE/F\<close> reading \<open>0x1234\<close>, \<^verbatim>\<open>BRK\<close> at
  \<open>0x0200\<close>, \<^verbatim>\<open>RTI\<close> at \<open>0x1234\<close> and \<open>PC = 0x0200\<close>, \<open>SP = 0xFF\<close>, \<open>P = 0x24\<close>: after
  the first step the CPU is in the handler (\<open>PC = 0x1234\<close>) with \<open>I\<close> set, and after
  the second step \<open>PC = 0x0202\<close>, \<open>SP = 0xFF\<close> and \<open>P = 0x34\<close>: the constant bit and
  \<open>I\<close> are preserved, and the \<open>B\<close> bit that \<^verbatim>\<open>BRK\<close> pushed is pulled back by \<^verbatim>\<open>RTI\<close>.
\<close>

theorem brk_rti_cycle:
  assumes "memory_map_ready m"
    and "optable 0x00 = brk_00 h" and "optable 0x40 = rti_40 h"
    and "RAM m 0x0200 = 0x00" and "RAM m 0x1234 = 0x40"
    and "real_rom_read 0xFFFE m = 0x34" and "real_rom_read 0xFFFF m = 0x12"
    and "CPU_pc m = 0x0200" and "CPU_sp m = 0xFF" and "CPU_status m = 0x24"
    and "CPU_wai m = 0"
  shows "CPU_pc (step6502 optable h m) = 0x1234
       \<and> CPU_status (step6502 optable h m) AND FLAG_INTERRUPT = FLAG_INTERRUPT
       \<and> CPU_pc (step6502 optable h (step6502 optable h m)) = 0x0202
       \<and> CPU_sp (step6502 optable h (step6502 optable h m)) = 0xFF
       \<and> CPU_status (step6502 optable h (step6502 optable h m)) = 0x34
       \<and> CPU_status (step6502 optable h (step6502 optable h m)) AND FLAG_CONSTANT = FLAG_CONSTANT"
  by (simp only: brk_rti_steps(2) [OF assms]) (simp add: brk_rti_steps(1) [OF assms])

theorem brk_rti_cycle_witness:
  "memory_map_ready scenario_A
   \<and> scenario_optable 0x00 = brk_00 no_io \<and> scenario_optable 0x40 = rti_40 no_io
   \<and> RAM scenario_A 0x0200 = 0x00 \<and> RAM scenario_A 0x1234 = 0x40
   \<and> real_rom_read 0xFFFE scenario_A = 0x34 \<and> real_rom_read 0xFFFF scenario_A = 0x12
   \<and> CPU_pc scenario_A = 0x0200 \<and> CPU_sp scenario_A = 0xFF \<and> CPU_status scenario_A = 0x24
   \<and> CPU_wai scenario_A = 0
   \<and> CPU_pc (step6502 scenario_optable no_io scenario_A) = 0x1234
   \<and> CPU_pc (step6502 scenario_optable no_io (step6502 scenario_optable no_io scenario_A)) = 0x0202
   \<and> CPU_sp (step6502 scenario_optable no_io (step6502 scenario_optable no_io scenario_A)) = 0xFF
   \<and> CPU_status (step6502 scenario_optable no_io (step6502 scenario_optable no_io scenario_A)) = 0x34"
  using brk_rti_cycle [OF scenario_A_setup] scenario_A_setup by simp

subsection \<open>Bit branches\<close>

text \<open>
  A taken bit branch loads \<open>PC\<close> from the 8-bit \<^verbatim>\<open>CPU.ea\<close>, so it always lands in page 0.
\<close>

lemma bbr_pc:
  "read6502 h addr m = (v, m1) \<Longrightarrow>
   CPU_pc (bbr msk h addr m) = (if NOT v AND msk \<noteq> 0 then ucast (CPU_ea m1) else CPU_pc m1)"
  by (simp add: bbr_def)

lemma bbs_pc:
  "read6502 h addr m = (v, m1) \<Longrightarrow>
   CPU_pc (bbs msk h addr m) = (if v AND msk \<noteq> 0 then ucast (CPU_ea m1) else CPU_pc m1)"
  by (simp add: bbs_def)

text \<open>
  C4. \<^verbatim>\<open>BBS0 $10, +5\<close> at \<open>0x0300\<close> with bit 0 of \<^verbatim>\<open>$10\<close> set: the PC after the two
  operand bytes is \<open>0x0303\<close> and the branch target is \<open>0x0308\<close>. The code leaves
  \<open>0x08\<close> in \<^verbatim>\<open>CPU.ea\<close> and jumps to \<open>0x0008\<close> (to \<open>0x0007\<close> when the compiler reads
  \<^verbatim>\<open>CPU.pc\<close> before it calls \<^verbatim>\<open>read8\<close>), never to \<open>0x0308\<close>.
\<close>

theorem bbs0_at_0300:
  "CPU_pc (IMPL_CPU_OP_zprel bbs0 False no_io scenario_bbs0) = 0x0008
   \<and> CPU_ea (IMPL_CPU_OP_zprel bbs0 False no_io scenario_bbs0) = 0x08
   \<and> CPU_pc (IMPL_CPU_OP_zprel bbs0 True no_io scenario_bbs0) = 0x0007"
  by (simp add: IMPL_CPU_OP_zprel_def zprel_def read8_def bbs0_def bbs_def tick_penalty_def
        read6502_direct Let_def scenario_bbs0_def ready_init)


subsection \<open>The stack\<close>

lemma unat_sp_lt: "unat (sp :: 8 word) < 256"
proof -
  have "unat sp < 2 ^ LENGTH(8)" by (rule unsigned_less)
  then show ?thesis by simp
qed

lemma stack_addr: "unat (BASE_STACK + ucast (sp :: 8 word) :: 16 word) = stack_slot sp"
proof -
  have u: "unat (ucast sp :: 16 word) = unat sp"
    using unat_sp_lt [of sp] by (simp add: unsigned_ucast_eq take_bit_nat_eq_self)
  show ?thesis
    using unat_sp_lt [of sp] by (simp add: stack_slot_def unat_word_ariths u)
qed

lemma stack_slot_lt: "stack_slot sp < 0x9f00"
  using unat_sp_lt [of sp] by (simp add: stack_slot_def)

lemma stack_slot_inj: "stack_slot a = stack_slot b \<longleftrightarrow> a = b"
  by (auto simp: stack_slot_def intro: unsigned_word_eqI)

lemma push8_ready:
  "memory_map_ready m \<Longrightarrow>
   push8 h v m = m\<lparr>CPU_sp := CPU_sp m - 1, RAM := (RAM m)(stack_slot (CPU_sp m) := v)\<rparr>"
  using stack_slot_lt [of "CPU_sp m"]
  by (simp add: push8_def write6502_direct stack_addr del: BASE_STACK_def)

lemma pull8_ready:
  "memory_map_ready m \<Longrightarrow>
   pull8 h m = (RAM m (stack_slot (CPU_sp m + 1)), m\<lparr>CPU_sp := CPU_sp m + 1\<rparr>)"
  using stack_slot_lt [of "CPU_sp m + 1"]
  by (simp add: pull8_def read6502_direct stack_addr Let_def del: BASE_STACK_def)

lemma pull_n_snoc:
  "pull_n h (Suc n) m =
     (let (vs, m1) = pull_n h n m; (v, m2) = pull8 h m1 in (vs @ [v], m2))"
proof (induction n arbitrary: m)
  case 0
  show ?case by (simp add: Let_def split: prod.split)
next
  case (Suc n)
  obtain v m1 where p1: "pull8 h m = (v, m1)" by (cases "pull8 h m")
  obtain vs m2 where p2: "pull_n h n m1 = (vs, m2)" by (cases "pull_n h n m1")
  obtain w m3 where p3: "pull8 h m2 = (w, m3)" by (cases "pull8 h m2")
  have inner: "pull_n h (Suc n) m1 = (vs @ [w], m3)"
    by (simp only: Suc.IH [of m1] p2 p3 Let_def prod.case)
  have lhs: "pull_n h (Suc (Suc n)) m = (v # vs @ [w], m3)"
    by (simp only: pull_n.simps(2) [of h "Suc n" m] p1 inner Let_def prod.case)
  have outer: "pull_n h (Suc n) m = (v # vs, m2)"
    by (simp only: pull_n.simps(2) [of h n m] p1 p2 Let_def prod.case)
  show ?case
    by (simp only: lhs outer p3 Let_def prod.case append_Cons)
qed

lemma of_nat_Suc_neq_0: "i < 255 \<Longrightarrow> (1 + of_nat i :: 8 word) \<noteq> 0"
proof
  assume i: "i < 255" and z: "(1 + of_nat i :: 8 word) = 0"
  have "(of_nat (Suc i) :: 8 word) = 0" using z by simp
  then have "2 ^ LENGTH(8) dvd Suc i" by (simp only: word_of_nat_eq_0_iff)
  then have "256 dvd Suc i" by simp
  then have "256 \<le> Suc i" by (rule dvd_imp_le) simp
  with i show False by simp
qed

lemma sp_slot_distinct: "i < 255 \<Longrightarrow> (sp :: 8 word) \<noteq> sp - 1 - of_nat i"
proof
  assume i: "i < 255" and e: "sp = sp - 1 - of_nat i"
  have "sp - 1 - of_nat i = sp - (1 + of_nat i)" by (simp only: diff_diff_eq)
  with e have "sp = sp - (1 + of_nat i)" by simp
  then have "sp + (1 + of_nat i) = sp" by (simp only: eq_diff_eq)
  then have "(1 + of_nat i :: 8 word) = 0" by (simp only: add_cancel_left_right)
  with of_nat_Suc_neq_0 [OF i] show False by simp
qed

lemma push_pull_lifo:
  "memory_map_ready m \<Longrightarrow> length bs \<le> 256 \<Longrightarrow>
   \<exists>r. pull_n h (length bs) (push_all h bs m) = (rev bs, m\<lparr>RAM := r\<rparr>)
     \<and> (\<forall>k. (\<forall>i<length bs. k \<noteq> stack_slot (CPU_sp m - of_nat i)) \<longrightarrow> r k = RAM m k)"
proof (induction bs arbitrary: m)
  case Nil
  show ?case by (simp add: push_all_def) (rule exI [of _ "RAM m"], simp)
next
  case (Cons b bs)
  let ?m1 = "m\<lparr>CPU_sp := CPU_sp m - 1, RAM := (RAM m)(stack_slot (CPU_sp m) := b)\<rparr>"
  have ready1: "memory_map_ready ?m1" using Cons.prems(1) by simp
  have len: "length bs \<le> 256" "length bs < 256" using Cons.prems(2) by simp_all
  from Cons.IH [OF ready1 len(1)] obtain r where
    pulls: "pull_n h (length bs) (push_all h bs ?m1) = (rev bs, ?m1\<lparr>RAM := r\<rparr>)" and
    frame: "\<And>k. (\<forall>i<length bs. k \<noteq> stack_slot (CPU_sp ?m1 - of_nat i)) \<Longrightarrow> r k = RAM ?m1 k"
    by blast
  have push: "push_all h (b # bs) m = push_all h bs ?m1"
    using Cons.prems(1) by (simp add: push_all_def push8_ready)
  have top: "r (stack_slot (CPU_sp m)) = b"
  proof -
    have "\<forall>i<length bs. stack_slot (CPU_sp m) \<noteq> stack_slot (CPU_sp ?m1 - of_nat i)"
    proof (intro allI impI)
      fix i assume "i < length bs"
      then have "i < 255" using Cons.prems(2) by simp
      then have "CPU_sp m \<noteq> CPU_sp m - 1 - of_nat i" by (rule sp_slot_distinct)
      then show "stack_slot (CPU_sp m) \<noteq> stack_slot (CPU_sp ?m1 - of_nat i)"
        by (simp add: stack_slot_inj)
    qed
    then have "r (stack_slot (CPU_sp m)) = RAM ?m1 (stack_slot (CPU_sp m))" by (rule frame)
    then show ?thesis by simp
  qed
  have res: "pull_n h (length (b # bs)) (push_all h (b # bs) m) = (rev (b # bs), m\<lparr>RAM := r\<rparr>)"
    unfolding push using Cons.prems(1)
    by (simp only: list.size pull_n_snoc add_Suc_right add_0_right)
       (simp add: pulls pull8_ready top Let_def)
  have "\<forall>k. (\<forall>i<length (b # bs). k \<noteq> stack_slot (CPU_sp m - of_nat i)) \<longrightarrow> r k = RAM m k"
  proof (intro allI impI)
    fix k assume out: "\<forall>i<length (b # bs). k \<noteq> stack_slot (CPU_sp m - of_nat i)"
    from out have k0: "k \<noteq> stack_slot (CPU_sp m)" by (auto dest: spec [of _ 0])
    have "\<forall>i<length bs. k \<noteq> stack_slot (CPU_sp ?m1 - of_nat i)"
    proof (intro allI impI)
      fix i assume "i < length bs"
      then have "k \<noteq> stack_slot (CPU_sp m - of_nat (Suc i))" using out by auto
      then show "k \<noteq> stack_slot (CPU_sp ?m1 - of_nat i)" by (simp add: diff_diff_eq)
    qed
    then have "r k = RAM ?m1 k" by (rule frame)
    with k0 show "r k = RAM m k" by simp
  qed
  with res show ?case by blast
qed



text \<open>
  C9. On an initialised bus, for every sequence \<open>bs\<close> of 256 bytes and every initial
  stack pointer, pushing all of \<open>bs\<close> with \<^verbatim>\<open>push8\<close> and then pulling 256 bytes with
  \<^verbatim>\<open>pull8\<close> returns the bytes in LIFO order (\<open>rev bs\<close>) and restores \<open>SP\<close>. A push at
  \<open>SP = 0\<close> stores at the stack base \<open>0x0100\<close> and wraps \<open>SP\<close> to \<open>0xFF\<close>, so that the
  next push stores at \<open>0x01FF\<close>.
\<close>

theorem stack_lifo_256:
  assumes "memory_map_ready m" and "length bs = 256"
  shows "fst (pull_n h 256 (push_all h bs m)) = rev bs
       \<and> CPU_sp (snd (pull_n h 256 (push_all h bs m))) = CPU_sp m
       \<and> (CPU_sp m = 0 \<longrightarrow>
            RAM (push8 h v m) 0x0100 = v \<and> CPU_sp (push8 h v m) = 0xFF
            \<and> RAM (push8 h w (push8 h v m)) 0x01FF = w)"
proof -
  from push_pull_lifo [OF assms(1), of bs h] assms(2) obtain r where
    "pull_n h 256 (push_all h bs m) = (rev bs, m\<lparr>RAM := r\<rparr>)"
    by auto
  then have lifo: "fst (pull_n h 256 (push_all h bs m)) = rev bs"
    "CPU_sp (snd (pull_n h 256 (push_all h bs m))) = CPU_sp m"
    by simp_all
  have wrap: "RAM (push8 h v m) 0x0100 = v \<and> CPU_sp (push8 h v m) = 0xFF
      \<and> RAM (push8 h w (push8 h v m)) 0x01FF = w" if "CPU_sp m = 0"
  proof -
    have u: "unat (- 1 :: 8 word) = 255"
      by (simp add: unsigned_minus_1_eq_mask mask_eq_exp_minus_1)
    show ?thesis using that assms(1) by (simp add: push8_ready stack_slot_def u)
  qed
  from lifo wrap show ?thesis by blast
qed

theorem stack_lifo_256_witness:
  "memory_map_ready (memory_init power_on)
   \<and> length stack_test_bytes = 256
   \<and> CPU_sp (memory_init power_on) = 0
   \<and> fst (pull_n no_io 256 (push_all no_io stack_test_bytes (memory_init power_on)))
       = rev stack_test_bytes
   \<and> CPU_sp (snd (pull_n no_io 256 (push_all no_io stack_test_bytes (memory_init power_on)))) = 0
   \<and> RAM (push8 no_io 0x5A (memory_init power_on)) 0x0100 = 0x5A
   \<and> CPU_sp (push8 no_io 0x5A (memory_init power_on)) = 0xFF
   \<and> RAM (push8 no_io 0xA5 (push8 no_io 0x5A (memory_init power_on))) 0x01FF = 0xA5"
proof -
  have h1: "memory_map_ready (memory_init power_on)" by (rule ready_init)
  have h2: "length stack_test_bytes = 256" by (simp add: stack_test_bytes_def)
  have h3: "CPU_sp (memory_init power_on) = 0" by (simp add: memory_init_def power_on_def)
  show ?thesis
    using stack_lifo_256 [OF h1 h2, of no_io "0x5A" "0xA5"] h1 h2 h3 by simp
qed


end
